theory Spec2Isabelle
  imports Complex_Main
begin

section \<open>Stimulus waveforms of pulse2percept (stimuli.py)\<close>

text \<open>
  The module builds sampled stimulation waveforms with numpy. Python floats are modelled
  as exact rationals (\<^typ>\<open>rat\<close>): a duration, a sampling step, a frequency and an
  amplitude are rationals, a sample count is a Python integer (\<^typ>\<open>int\<close>), an array of
  samples is a \<^typ>\<open>rat list\<close>. Binary rounding error, infinities and NaN are outside
  the model. Every \<open>raise\<close> of the source, and every exception numpy raises on the way, is
  an \<open>Inl\<close> result.
\<close>

subsection \<open>Exceptions, numpy helpers\<close>

text \<open>
  The exceptions the module lets escape, each with its message. \<open>NonFinite\<close> is no
  exception: it marks a numpy division by zero, which warns and yields \<open>inf\<close> or
  \<open>nan\<close>, values the rational model has no place for.
\<close>

datatype error = ValueError string | IndexError string | AssertionError | NonFinite

text \<open>
  \<open>utils.TimeSeries(tsample, data)\<close>: the sampling step and the samples.
\<close>

record TimeSeries =
  tsample :: rat
  data :: "rat list"

text \<open>
  \<open>int(np.round(x))\<close>: numpy rounds to the nearest integer and a tie to the even
  neighbour. The built-in \<open>round\<close> of Python 3, which \<open>BiphasicPulse\<close> uses for the
  interphase gap, rounds the same way.
\<close>

definition np_round :: "rat \<Rightarrow> int" where
  "np_round x =
     (let f = \<lfloor>x\<rfloor>; d = x - of_int f
      in if d < 1 / 2 then f
         else if 1 / 2 < d then f + 1
         else if even f then f else f + 1)"

definition py_round :: "rat \<Rightarrow> int" where
  "py_round x = np_round x"

text \<open>\<open>int(np.ceil(x))\<close>.\<close>

definition np_ceil :: "rat \<Rightarrow> int" where
  "np_ceil x = \<lceil>x\<rceil>"

text \<open>
  \<open>np.isclose(a, b)\<close> with the default tolerances \<open>rtol = 1e-05\<close>, \<open>atol = 1e-08\<close>.
\<close>

definition np_isclose :: "rat \<Rightarrow> rat \<Rightarrow> bool" where
  "np_isclose a b = (\<bar>a - b\<bar> \<le> 1 / 100000000 + (1 / 100000) * \<bar>b\<bar>)"

text \<open>
  \<open>np.zeros(n)\<close> and \<open>np.ones(n)\<close> raise \<open>ValueError\<close> on a negative size.
\<close>

definition np_zeros :: "int \<Rightarrow> error + rat list" where
  "np_zeros n =
     (if n < 0 then Inl (ValueError ''negative dimensions are not allowed'')
      else Inr (replicate (nat n) 0))"

definition np_ones :: "int \<Rightarrow> error + rat list" where
  "np_ones n =
     (if n < 0 then Inl (ValueError ''negative dimensions are not allowed'')
      else Inr (replicate (nat n) 1))"

text \<open>
  The slice \<open>xs[:n]\<close>: the first \<open>n\<close> elements, and for a negative \<open>n\<close> all but the
  last \<open>-n\<close>.
\<close>

definition slice_to :: "'a list \<Rightarrow> int \<Rightarrow> 'a list" where
  "slice_to xs n =
     (if 0 \<le> n then take (nat n) xs else take (length xs - nat (- n)) xs)"

subsection \<open>MonophasicPulse and BiphasicPulse\<close>

definition MonophasicPulse ::
  "string \<Rightarrow> rat \<Rightarrow> rat \<Rightarrow> rat \<Rightarrow> rat option \<Rightarrow> error + TimeSeries" where
  "MonophasicPulse ptype pdur ts delay_dur stim_dur_opt =
     (if ts \<le> 0 then Inl (ValueError ''tsample must be a non-negative float.'')
      else
        let stim_dur = (case stim_dur_opt of None \<Rightarrow> pdur + delay_dur | Some d \<Rightarrow> d);
            pulse_size = np_round (pdur / ts);
            delay_size = np_round (delay_dur / ts);
            stim_size = np_round (stim_dur / ts)
        in case (if ptype = ''cathodic''
                 then (case np_ones pulse_size of
                         Inl e \<Rightarrow> Inl e
                       | Inr v \<Rightarrow> Inr (map uminus v))
                 else if ptype = ''anodic'' then np_ones pulse_size
                 else Inl (ValueError
                   ''Acceptable values for `ptype` are 'anodic', 'cathodic'.'')) of
             Inl e \<Rightarrow> Inl e
           | Inr pulse \<Rightarrow>
               (case np_zeros delay_size of
                  Inl e \<Rightarrow> Inl e
                | Inr zd \<Rightarrow>
                    (case np_zeros stim_size of
                       Inl e \<Rightarrow> Inl e
                     | Inr zs \<Rightarrow>
                         Inr \<lparr>tsample = ts,
                              data = slice_to (zd @ pulse @ zs) stim_size\<rparr>)))"

definition BiphasicPulse ::
  "string \<Rightarrow> rat \<Rightarrow> rat \<Rightarrow> rat \<Rightarrow> error + TimeSeries" where
  "BiphasicPulse ptype pdur ts interphase_dur =
     (if ts \<le> 0 then Inl (ValueError ''tsample must be a non-negative float.'')
      else
        case MonophasicPulse ''anodic'' pdur ts 0 (Some pdur) of
          Inl e \<Rightarrow> Inl e
        | Inr on \<Rightarrow>
            (case MonophasicPulse ''cathodic'' pdur ts 0 (Some pdur) of
               Inl e \<Rightarrow> Inl e
             | Inr off \<Rightarrow>
                 (case np_zeros (py_round (interphase_dur / ts)) of
                    Inl e \<Rightarrow> Inl e
                  | Inr gap \<Rightarrow>
                      if ptype = ''cathodicfirst''
                      then Inr \<lparr>tsample = ts, data = (data off @ gap) @ data on\<rparr>
                      else if ptype = ''anodicfirst''
                      then Inr \<lparr>tsample = ts, data = (data on @ gap) @ data off\<rparr>
                      else Inl (ValueError
                        (''Acceptable values for `type` are 'anodicfirst' or 'cathodicfirst'' @
                         [CHR 0x27])))))"

subsection \<open>PulseTrain\<close>

text \<open>
  The loop \<open>for j in range(n)\<close> of \<open>PulseTrain.__init__\<close>: each round appends one
  envelope to the train, and checks \<open>pulseorder\<close> anew.
\<close>

fun pulse_train_loop ::
  "nat \<Rightarrow> string \<Rightarrow> rat list \<Rightarrow> rat list \<Rightarrow> rat list \<Rightarrow> rat list \<Rightarrow> error + rat list" where
  "pulse_train_loop 0 pulseorder delay pulse gap pulse_train = Inr pulse_train"
| "pulse_train_loop (Suc n) pulseorder delay pulse gap pulse_train =
     (if pulseorder = ''pulsefirst''
      then pulse_train_loop n pulseorder delay pulse gap (pulse_train @ delay @ pulse @ gap)
      else if pulseorder = ''gapfirst''
      then pulse_train_loop n pulseorder delay pulse gap (pulse_train @ delay @ gap @ pulse)
      else Inl (ValueError
        (''Acceptable values for `pulseorder` are 'pulsefirst' or 'gapfirst'' @ [CHR 0x27])))"

definition PulseTrain ::
  "rat \<Rightarrow> rat \<Rightarrow> rat \<Rightarrow> rat \<Rightarrow> rat \<Rightarrow> rat \<Rightarrow> rat \<Rightarrow> string \<Rightarrow> string \<Rightarrow> error + TimeSeries" where
  "PulseTrain ts freq amp dur delay pulse_dur interphase_dur pulsetype pulseorder =
     (if ts \<le> 0 then Inl (ValueError ''tsample must be a non-negative float.'')
      else
        let stim_size = np_round (1 * dur / ts)
        in if np_isclose freq 0 \<or> np_isclose amp 0
           then (case np_zeros stim_size of
                   Inl e \<Rightarrow> Inl e
                 | Inr z \<Rightarrow> Inr \<lparr>tsample = ts, data = z\<rparr>)
           else
             let envelope_size = np_round (1 / freq / ts);
                 delay_size = np_round (1 * delay / ts)
             in if delay_size < 0 then Inl (ValueError ''Delay cannot be negative.'')
                else
                  case np_zeros delay_size of
                    Inl e \<Rightarrow> Inl e
                  | Inr delay_arr \<Rightarrow>
                  (case BiphasicPulse pulsetype pulse_dur ts interphase_dur of
                    Inl e \<Rightarrow> Inl e
                  | Inr bp \<Rightarrow>
                      let pulse = map ((*) amp) (data bp);
                          pulse_size = int (length pulse)
                      in if pulse_size < 0
                         then Inl (ValueError ''Single pulse must fit within 1/freq interval.'')
                         else
                           let gap_size = envelope_size - (delay_size + pulse_size)
                           in if gap_size < 0
                              then Inl (ValueError
                                ''Pulse and delay must fit within 1/freq interval.'')
                              else
                                case np_zeros gap_size of
                                  Inl e \<Rightarrow> Inl e
                                | Inr gap \<Rightarrow>
                                (case pulse_train_loop (nat (np_ceil (dur * freq)))
                                        pulseorder delay_arr pulse gap [] of
                                  Inl e \<Rightarrow> Inl e
                                | Inr pulse_train \<Rightarrow>
                                    let pulse_train' =
                                      (if int (length pulse_train) < stim_size
                                       then pulse_train @
                                            replicate (nat (stim_size - int (length pulse_train))) 0
                                       else pulse_train)
                                    in Inr \<lparr>tsample = ts,
                                            data = slice_to pulse_train' stim_size\<rparr>)))"

subsection \<open>The electrode array\<close>

text \<open>
  Modelled from the spec: \<open>implants.ElectrodeArray\<close> is imported by \<open>stimuli.py\<close>
  and is not among the sources. The spec describes it as a fixed-order sequence of
  electrodes with a lookup by name that returns an index or not-found, and a
  receptive-field weight function over a coordinate grid. An electrode is its name and its
  receptive field, the weight it gives to each position of the (flattened) grid.
\<close>

record Electrode =
  name :: string
  receptive_field :: "nat \<Rightarrow> rat"

type_synonym ElectrodeArray = "Electrode list"

definition num_electrodes :: "ElectrodeArray \<Rightarrow> nat" where
  "num_electrodes implant = length implant"

fun get_index_from :: "nat \<Rightarrow> ElectrodeArray \<Rightarrow> string \<Rightarrow> nat option" where
  "get_index_from i [] key = None"
| "get_index_from i (e # es) key =
     (if name e = key then Some i else get_index_from (Suc i) es key)"

definition get_index :: "ElectrodeArray \<Rightarrow> string \<Rightarrow> nat option" where
  "get_index implant key = get_index_from 0 implant key"

subsection \<open>image2pulsetrain\<close>










subsection \<open>parse_pulse_trains\<close>

text \<open>
  The function copies objects and returns a list of references, and what its callers may
  observe depends on which references are the same object. So the waveforms live in a
  store, a list of objects addressed by position; a reference is an address, taken to be
  valid (below the length of the store), as every Python reference is.
\<close>

type_synonym ref = nat
type_synonym heap = "TimeSeries list"

text \<open>
  The three shapes \<open>stim\<close> may have: one \<open>TimeSeries\<close>, a dictionary from electrode
  names to waveforms (in the order of its items), or a list of waveforms.
\<close>

datatype stimulus = Single ref | Dict "(string \<times> ref) list" | Seq "ref list"

text \<open>\<open>copy.deepcopy(x)\<close> of one waveform: a new object with the same contents.\<close>

definition deepcopy :: "heap \<Rightarrow> ref \<Rightarrow> ref \<times> heap" where
  "deepcopy h r = (length h, h @ [h ! r])"

text \<open>
  \<open>copy.deepcopy(stim)\<close> of a list: one call, whose memo copies an object that occurs
  twice only once.
\<close>

fun deepcopy_list :: "heap \<Rightarrow> (ref \<times> ref) list \<Rightarrow> ref list \<Rightarrow> ref list \<times> heap" where
  "deepcopy_list h memo [] = ([], h)"
| "deepcopy_list h memo (r # rs) =
     (case map_of memo r of
        Some r' \<Rightarrow>
          (let (rs', h') = deepcopy_list h memo rs in (r' # rs', h'))
      | None \<Rightarrow>
          (let (r', h1) = deepcopy h r;
               (rs', h') = deepcopy_list h1 ((r, r') # memo) rs
           in (r' # rs', h')))"

text \<open>The loop over \<open>stim.items()\<close> of the dictionary case.\<close>

fun assign_loop ::
  "ElectrodeArray \<Rightarrow> (string \<times> ref) list \<Rightarrow> ref list \<Rightarrow> heap \<Rightarrow> error + (ref list \<times> heap)" where
  "assign_loop implant [] pt h = Inr (pt, h)"
| "assign_loop implant ((key, val) # items) pt h =
     (case get_index implant key of
        Some el_idx \<Rightarrow>
          (let (r, h') = deepcopy h val
           in if el_idx < length pt
              then assign_loop implant items (pt[el_idx := r]) h'
              else Inl (IndexError ''list assignment index out of range''))
      | None \<Rightarrow>
          Inl (ValueError (''Could not find electrode with name '' @ [CHR 0x27] @ key @ [CHR 0x27])))"

definition parse_pulse_trains ::
  "stimulus \<Rightarrow> ElectrodeArray \<Rightarrow> heap \<Rightarrow> error + (ref list \<times> heap)" where
  "parse_pulse_trains stim implant h =
     (case stim of
        Single r \<Rightarrow>
          if num_electrodes implant > 1
          then Inl (ValueError ''More than 1 electrode given, use a list of pulse trains'')
          else (let (r', h') = deepcopy h r in Inr ([r'], h'))
      | Dict items \<Rightarrow>
          (case items of
             [] \<Rightarrow> Inl (IndexError ''list index out of range'')
           | (idx0, v0) # _ \<Rightarrow>
               let pt_zero = length h;
                   h1 = h @ [\<lparr>tsample = tsample (h ! v0),
                              data = replicate (length (data (h ! v0))) 0\<rparr>];
                   pt = replicate (num_electrodes implant) pt_zero
               in assign_loop implant items pt h1)
      | Seq rs \<Rightarrow>
          if length rs \<noteq> num_electrodes implant
          then Inl (ValueError ''Number of pulse trains must match number of electrodes'')
          else Inr (deepcopy_list h [] rs))"

text \<open>
  What a caller does to a waveform it holds: the in-place write \<open>pt.data[j] = v\<close>
  through the reference \<open>r\<close>.
\<close>

definition write_sample :: "heap \<Rightarrow> ref \<Rightarrow> nat \<Rightarrow> rat \<Rightarrow> heap" where
  "write_sample h r j v = h[r := (h ! r)\<lparr>data := (data (h ! r))[j := v]\<rparr>]"

section \<open>Properties\<close>

subsection \<open>Rounding\<close>

lemma np_round_zero [simp]: "np_round 0 = 0"
  by (simp add: np_round_def)

lemma np_round_of_int: "np_round (of_int k) = k"
  by (simp add: np_round_def Let_def)

lemma np_round_numeral [simp]: "np_round (numeral n) = numeral n"
  using np_round_of_int [of "numeral n"] by simp

lemma np_round_one [simp]: "np_round 1 = 1"
  using np_round_of_int [of 1] by simp

lemma np_round_neg_numeral [simp]: "np_round (- numeral n) = - numeral n"
  using np_round_of_int [of "- numeral n"] by simp

lemma np_round_neg_one [simp]: "np_round (- 1) = - 1"
  using np_round_of_int [of "- 1"] by simp

lemma np_round_nonneg: "0 \<le> x \<Longrightarrow> 0 \<le> np_round x"
  by (simp add: np_round_def Let_def)

lemma np_round_nonpos:
  assumes "x \<le> 0"
  shows "np_round x \<le> 0"
proof (cases "\<lfloor>x\<rfloor> = 0")
  case True
  then have "x - of_int \<lfloor>x\<rfloor> = x" by simp
  then show ?thesis using assms True by (simp add: np_round_def Let_def)
next
  case False
  moreover have "\<lfloor>x\<rfloor> \<le> 0" using assms by (simp add: floor_le_zero)
  ultimately have "\<lfloor>x\<rfloor> + 1 \<le> 0" by linarith
  then show ?thesis by (simp add: np_round_def Let_def)
qed

lemma np_round_neg_imp: "np_round x < 0 \<Longrightarrow> x < 0"
  using np_round_nonneg [of x] by linarith

subsection \<open>Single pulses\<close>

text \<open>
  With a recognised polarity and a positive sampling step, \<open>MonophasicPulse\<close> can only
  fail inside numpy, on a negative size; otherwise the slice keeps the first
  \<open>stim_size\<close> samples of delay, phase and padding.
\<close>

lemma MonophasicPulse_eq:
  assumes "0 < ts" and "ptype = ''anodic'' \<or> ptype = ''cathodic''"
  shows "MonophasicPulse ptype pdur ts delay_dur stim_dur =
     (let pulse_size = np_round (pdur / ts);
          delay_size = np_round (delay_dur / ts);
          stim_size = np_round ((case stim_dur of None \<Rightarrow> pdur + delay_dur | Some d \<Rightarrow> d) / ts)
      in if pulse_size < 0 \<or> delay_size < 0 \<or> stim_size < 0
         then Inl (ValueError ''negative dimensions are not allowed'')
         else Inr \<lparr>tsample = ts,
                   data = take (nat stim_size)
                     (replicate (nat delay_size) 0 @
                      replicate (nat pulse_size) (if ptype = ''anodic'' then 1 else - 1) @
                      replicate (nat stim_size) 0)\<rparr>)"
  using assms
  by (auto simp add: MonophasicPulse_def Let_def np_zeros_def np_ones_def slice_to_def)

lemma MonophasicPulse_phase:
  assumes "0 < ts" and "ptype = ''anodic'' \<or> ptype = ''cathodic''"
  shows "MonophasicPulse ptype pdur ts 0 (Some pdur) =
     (if np_round (pdur / ts) < 0
      then Inl (ValueError ''negative dimensions are not allowed'')
      else Inr \<lparr>tsample = ts,
                data = replicate (nat (np_round (pdur / ts)))
                         (if ptype = ''anodic'' then 1 else - 1)\<rparr>)"
  using assms by (simp add: MonophasicPulse_eq Let_def)

lemma BiphasicPulse_eq:
  assumes "0 < ts" and "ptype = ''cathodicfirst'' \<or> ptype = ''anodicfirst''"
  shows "BiphasicPulse ptype pdur ts interphase_dur =
     (let pulse_size = np_round (pdur / ts);
          gap_size = py_round (interphase_dur / ts)
      in if pulse_size < 0 \<or> gap_size < 0
         then Inl (ValueError ''negative dimensions are not allowed'')
         else Inr \<lparr>tsample = ts,
                   data = replicate (nat pulse_size) (if ptype = ''cathodicfirst'' then - 1 else 1) @
                          replicate (nat gap_size) 0 @
                          replicate (nat pulse_size) (if ptype = ''cathodicfirst'' then 1 else - 1)\<rparr>)"
proof (cases "np_round (pdur / ts) < 0")
  case True
  then show ?thesis using assms(1)
    by (simp add: BiphasicPulse_def MonophasicPulse_phase Let_def)
next
  case False
  then show ?thesis using assms
    by (auto simp add: BiphasicPulse_def MonophasicPulse_phase Let_def np_zeros_def)
qed

text \<open>
  Claim C7, amended. For every \<open>MonophasicPulse(ptype, pdur, tsample, delay_dur, stim_dur)\<close>
  with \<open>ptype\<close> one of \<open>'anodic'\<close>, \<open>'cathodic'\<close>, with \<open>tsample > 0\<close> and with
  none of the three sample counts \<open>round(pdur/tsample)\<close>, \<open>round(delay_dur/tsample)\<close>,
  \<open>round(stim_dur/tsample)\<close> negative (\<open>stim_dur\<close> defaulting to \<open>pdur + delay_dur\<close>), the
  call returns, its output has exactly \<open>stim_samples = round(stim_dur/tsample)\<close> samples,
  and these are the buffer of \<open>delay_samples\<close> zeros, \<open>phase_samples\<close> values \<open>+1\<close> or
  \<open>-1\<close> and trailing zeros, cut to \<open>stim_samples\<close>; when delay and phase together exceed
  \<open>stim_samples\<close> the pulse is cut short and no error is raised.
\<close>

theorem MonophasicPulse_exact_length:
  assumes "0 < ts"
    and "ptype = ''anodic'' \<or> ptype = ''cathodic''"
    and "0 \<le> np_round (pdur / ts)"
    and "0 \<le> np_round (delay_dur / ts)"
    and "0 \<le> np_round ((case stim_dur of None \<Rightarrow> pdur + delay_dur | Some d \<Rightarrow> d) / ts)"
  shows "MonophasicPulse ptype pdur ts delay_dur stim_dur =
           Inr \<lparr>tsample = ts,
                data = take (nat (np_round
                         ((case stim_dur of None \<Rightarrow> pdur + delay_dur | Some d \<Rightarrow> d) / ts)))
                  (replicate (nat (np_round (delay_dur / ts))) 0 @
                   replicate (nat (np_round (pdur / ts))) (if ptype = ''anodic'' then 1 else - 1) @
                   replicate (nat (np_round
                     ((case stim_dur of None \<Rightarrow> pdur + delay_dur | Some d \<Rightarrow> d) / ts))) 0)\<rparr>
       \<and> int (length (take (nat (np_round
                         ((case stim_dur of None \<Rightarrow> pdur + delay_dur | Some d \<Rightarrow> d) / ts)))
                  (replicate (nat (np_round (delay_dur / ts)))(0::rat) @
                   replicate (nat (np_round (pdur / ts))) (if ptype = ''anodic'' then 1 else - 1) @
                   replicate (nat (np_round
                     ((case stim_dur of None \<Rightarrow> pdur + delay_dur | Some d \<Rightarrow> d) / ts))) 0)))
           = np_round ((case stim_dur of None \<Rightarrow> pdur + delay_dur | Some d \<Rightarrow> d) / ts)"
proof -
  let ?n = "nat (np_round ((case stim_dur of None \<Rightarrow> pdur + delay_dur | Some d \<Rightarrow> d) / ts))"
  have len: "length (take ?n (xs @ ys @ replicate ?n (0::rat))) = ?n" for xs ys
    by (simp only: length_take length_append length_replicate)
  have n_eq: "int ?n = np_round ((case stim_dur of None \<Rightarrow> pdur + delay_dur | Some d \<Rightarrow> d) / ts)"
    using assms(5) by simp
  have out: "MonophasicPulse ptype pdur ts delay_dur stim_dur =
           Inr \<lparr>tsample = ts,
                data = take ?n
                  (replicate (nat (np_round (delay_dur / ts))) 0 @
                   replicate (nat (np_round (pdur / ts))) (if ptype = ''anodic'' then 1 else - 1) @
                   replicate ?n 0)\<rparr>"
    using assms(3-5) by (simp only: MonophasicPulse_eq [OF assms(1,2)] Let_def) simp
  have len_eq: "int (length (take ?n
                  (replicate (nat (np_round (delay_dur / ts))) 0 @
                   replicate (nat (np_round (pdur / ts))) (if ptype = ''anodic'' then 1 else - 1) @
                   replicate ?n (0::rat)))) =
        np_round ((case stim_dur of None \<Rightarrow> pdur + delay_dur | Some d \<Rightarrow> d) / ts)"
    unfolding len by (rule n_eq)
  show ?thesis by (rule conjI [OF out len_eq])
qed

text \<open>
  The amended statement at a pulse that overshoots: a delay of 2 samples and a phase of 3
  in a stimulus of 4 samples. The last phase sample is cut off.
\<close>

theorem MonophasicPulse_exact_length_witness:
  "(0::rat) < 1 / 1000
   \<and> 0 \<le> np_round ((3 / 1000) / (1 / 1000))
   \<and> 0 \<le> np_round ((2 / 1000) / (1 / 1000))
   \<and> 0 \<le> np_round ((4 / 1000) / (1 / 1000))
   \<and> MonophasicPulse ''anodic'' (3 / 1000) (1 / 1000) (2 / 1000) (Some (4 / 1000)) =
       Inr \<lparr>tsample = 1 / 1000, data = [0, 0, 1, 1]\<rparr>"
  using MonophasicPulse_exact_length
    [of "1 / 1000" "''anodic''" "3 / 1000" "2 / 1000" "Some (4 / 1000)"]
  by (simp add: eval_nat_numeral)

text \<open>
  Without that condition the call may have no output: a delay of \<open>-1\<close> sample makes
  \<open>np.zeros\<close> raise, though the stimulus was to have 3 samples.
\<close>

theorem MonophasicPulse_negative_delay_raises:
  "MonophasicPulse ''anodic'' (2 / 1000) (1 / 1000) (- 1 / 1000) (Some (3 / 1000)) =
     Inl (ValueError ''negative dimensions are not allowed'')
   \<and> np_round ((3 / 1000) / (1 / 1000)) = 3"
  by (simp add: MonophasicPulse_def np_ones_def np_zeros_def Let_def)

text \<open>
  Claim C3, amended. For every \<open>BiphasicPulse(ptype, pdur, tsample, interphase_dur)\<close>
  with \<open>ptype\<close> one of \<open>'cathodicfirst'\<close>, \<open>'anodicfirst'\<close>, with \<open>tsample > 0\<close> and
  with neither \<open>round(pdur/tsample)\<close> nor \<open>round(interphase_dur/tsample)\<close> negative, the
  call returns a first phase of \<open>round(pdur/tsample)\<close> samples, all \<open>-1\<close> (cathodic
  first) or all \<open>+1\<close> (anodic first), the gap of \<open>round(interphase_dur/tsample)\<close> zeros,
  and a second phase of as many samples of the opposite sign; the samples sum to exactly
  \<open>0\<close> and there are \<open>2 * round(pdur/tsample) + round(interphase_dur/tsample)\<close> of them.
\<close>

theorem BiphasicPulse_charge_balanced:
  assumes "0 < ts"
    and "ptype = ''cathodicfirst'' \<or> ptype = ''anodicfirst''"
    and "0 \<le> np_round (pdur / ts)"
    and "0 \<le> py_round (interphase_dur / ts)"
  shows "BiphasicPulse ptype pdur ts interphase_dur =
           Inr \<lparr>tsample = ts,
                data = replicate (nat (np_round (pdur / ts)))
                         (if ptype = ''cathodicfirst'' then - 1 else 1) @
                       replicate (nat (py_round (interphase_dur / ts))) 0 @
                       replicate (nat (np_round (pdur / ts)))
                         (if ptype = ''cathodicfirst'' then 1 else - 1)\<rparr>
       \<and> sum_list (replicate (nat (np_round (pdur / ts)))
                         (if ptype = ''cathodicfirst'' then - 1 else (1::rat)) @
                    replicate (nat (py_round (interphase_dur / ts))) 0 @
                    replicate (nat (np_round (pdur / ts)))
                         (if ptype = ''cathodicfirst'' then 1 else - 1)) = 0
       \<and> int (length (replicate (nat (np_round (pdur / ts)))
                         (if ptype = ''cathodicfirst'' then - 1 else (1::rat)) @
                    replicate (nat (py_round (interphase_dur / ts))) 0 @
                    replicate (nat (np_round (pdur / ts)))
                         (if ptype = ''cathodicfirst'' then 1 else - 1)))
           = 2 * np_round (pdur / ts) + py_round (interphase_dur / ts)"
  using assms by (simp add: BiphasicPulse_eq [OF assms(1,2)] Let_def sum_list_replicate)

theorem BiphasicPulse_charge_balanced_witness:
  "(0::rat) < 1 / 1000
   \<and> 0 \<le> np_round ((3 / 1000) / (1 / 1000))
   \<and> 0 \<le> py_round ((5 / 2000) / (1 / 1000))
   \<and> BiphasicPulse ''anodicfirst'' (3 / 1000) (1 / 1000) (5 / 2000) =
       Inr \<lparr>tsample = 1 / 1000, data = [1, 1, 1, 0, 0, - 1, - 1, - 1]\<rparr>
   \<and> sum_list [1, 1, 1, 0, 0, - 1, - 1, - 1 :: rat] = 0"
proof -
  have "np_round (5 / 2) = 2" by code_simp
  then have r2: "py_round (5 / 2) = 2" by (simp add: py_round_def)
  show ?thesis
    using BiphasicPulse_charge_balanced
      [of "1 / 1000" "''anodicfirst''" "3 / 1000" "5 / 2000"]
    by (simp add: r2 eval_nat_numeral)
qed

text \<open>
  A negative interphase gap makes \<open>np.zeros\<close> raise, where the length formula would
  give 1 sample.
\<close>

theorem BiphasicPulse_negative_gap_raises:
  "BiphasicPulse ''cathodicfirst'' (1 / 1000) (1 / 1000) (- 1 / 1000) =
     Inl (ValueError ''negative dimensions are not allowed'')
   \<and> 2 * np_round ((1 / 1000) / (1 / 1000)) + py_round ((- 1 / 1000) / (1 / 1000)) = 1"
  by (simp add: BiphasicPulse_def MonophasicPulse_def py_round_def
      np_ones_def np_zeros_def slice_to_def Let_def)

subsection \<open>The pulse train\<close>

text \<open>
  The loop in closed form: with a recognised \<open>pulseorder\<close> it appends \<open>n\<close> copies
  of the envelope; in any case a train it returns has grown by \<open>n\<close> envelope lengths.
\<close>

lemma pulse_train_loop_pulsefirst:
  "pulse_train_loop n ''pulsefirst'' delay pulse gap acc =
     Inr (acc @ concat (replicate n (delay @ pulse @ gap)))"
  by (induction n arbitrary: acc) simp_all

lemma pulse_train_loop_gapfirst:
  "pulse_train_loop n ''gapfirst'' delay pulse gap acc =
     Inr (acc @ concat (replicate n (delay @ gap @ pulse)))"
  by (induction n arbitrary: acc) simp_all

lemma pulse_train_loop_length:
  "pulse_train_loop n pulseorder delay pulse gap acc = Inr pt \<Longrightarrow>
     length pt = length acc + n * (length delay + length pulse + length gap)"
proof (induction n arbitrary: acc)
  case 0
  then show ?case by simp
next
  case (Suc n)
  then show ?case by (auto split: if_splits)
qed

text \<open>What a returning call of \<open>PulseTrain\<close> went through.\<close>

lemma PulseTrain_InrD:
  assumes "PulseTrain ts freq amp dur delay pulse_dur interphase_dur pulsetype pulseorder = Inr out"
  shows "0 < ts \<and> tsample out = ts \<and>
     ((np_isclose freq 0 \<or> np_isclose amp 0) \<and> 0 \<le> np_round (dur / ts) \<and>
        data out = replicate (nat (np_round (dur / ts))) 0
      \<or> \<not> (np_isclose freq 0 \<or> np_isclose amp 0) \<and>
        (\<exists>bp pt. BiphasicPulse pulsetype pulse_dur ts interphase_dur = Inr bp \<and>
           0 \<le> np_round (delay / ts) \<and>
           0 \<le> np_round (1 / freq / ts) - (np_round (delay / ts) + int (length (data bp))) \<and>
           pulse_train_loop (nat (np_ceil (dur * freq))) pulseorder
             (replicate (nat (np_round (delay / ts))) 0)
             (map ((*) amp) (data bp))
             (replicate (nat (np_round (1 / freq / ts) -
                (np_round (delay / ts) + int (length (data bp))))) 0) [] = Inr pt \<and>
           data out = slice_to
             (if int (length pt) < np_round (dur / ts)
              then pt @ replicate (nat (np_round (dur / ts) - int (length pt))) 0
              else pt)
             (np_round (dur / ts))))"
  using assms
  by (auto simp add: PulseTrain_def Let_def np_zeros_def split: if_splits sum.splits)

text \<open>
  Claim C6, amended. If \<open>tsample > 0\<close> and \<open>round(dur/tsample)\<close> is not negative, and
  \<open>freq\<close> or \<open>amp\<close> is close to \<open>0\<close>, then \<open>PulseTrain.__init__\<close> returns the
  all-zero waveform of exactly \<open>round(dur/tsample)\<close> samples: it does not raise and
  validates none of the remaining parameters, so neither a negative delay nor an
  unknown \<open>pulsetype\<close> or \<open>pulseorder\<close> raises here.
\<close>

theorem PulseTrain_degenerate_zeros:
  assumes "0 < ts"
    and "0 \<le> np_round (dur / ts)"
    and "np_isclose freq 0 \<or> np_isclose amp 0"
  shows "PulseTrain ts freq amp dur delay pulse_dur interphase_dur pulsetype pulseorder =
           Inr \<lparr>tsample = ts, data = replicate (nat (np_round (dur / ts))) 0\<rparr>
         \<and> int (length (replicate (nat (np_round (dur / ts))) (0::rat))) = np_round (dur / ts)"
  using assms by (simp add: PulseTrain_def Let_def np_zeros_def)

theorem PulseTrain_degenerate_zeros_witness:
  "(0::rat) < 1 / 1000
   \<and> 0 \<le> np_round ((1 / 200) / (1 / 1000))
   \<and> (np_isclose 0 0 \<or> np_isclose 20 0)
   \<and> PulseTrain (1 / 1000) 0 20 (1 / 200) (- 1) (- 1) (- 1) ''sideways'' ''nowhere'' =
       Inr \<lparr>tsample = 1 / 1000, data = [0, 0, 0, 0, 0]\<rparr>"
  using PulseTrain_degenerate_zeros
    [of "1 / 1000" "1 / 200" 0 20 "- 1" "- 1" "- 1" "''sideways''" "''nowhere''"]
  by (simp add: np_isclose_def eval_nat_numeral)

text \<open>
  The degenerate case does raise when the target length is negative, and the check of the
  sampling step comes before it.
\<close>

theorem PulseTrain_degenerate_raises:
  "PulseTrain (1 / 1000) 0 20 (- 1 / 10) 0 (45 / 100000) (45 / 100000)
       ''cathodicfirst'' ''pulsefirst'' =
     Inl (ValueError ''negative dimensions are not allowed'')
   \<and> PulseTrain 0 0 20 (1 / 2) 0 (45 / 100000) (45 / 100000)
       ''cathodicfirst'' ''pulsefirst'' =
     Inl (ValueError ''tsample must be a non-negative float.'')"
  by (simp add: PulseTrain_def Let_def np_zeros_def np_isclose_def)

text \<open>
  Claim C2. Whenever \<open>PulseTrain.__init__\<close>, with \<open>freq\<close> and \<open>amp\<close> not close to
  \<open>0\<close>, gets as far as computing \<open>gap_size = envelope_size - (delay_size + pulse_size)\<close>
  (the sampling step is positive, the delay size is not negative, the biphasic pulse has
  been built) and finds it negative, it raises \<open>ValueError\<close> (the spec's
  \<open>InvalidParameter\<close>) and returns no waveform.
\<close>

theorem PulseTrain_negative_gap_raises:
  assumes "0 < ts"
    and "\<not> np_isclose freq 0" and "\<not> np_isclose amp 0"
    and "0 \<le> np_round (delay / ts)"
    and "BiphasicPulse pulsetype pulse_dur ts interphase_dur = Inr bp"
    and "np_round (1 / freq / ts) -
           (np_round (delay / ts) + int (length (map ((*) amp) (data bp)))) < 0"
  shows "PulseTrain ts freq amp dur delay pulse_dur interphase_dur pulsetype pulseorder =
           Inl (ValueError ''Pulse and delay must fit within 1/freq interval.'')"
  using assms by (simp add: PulseTrain_def Let_def np_zeros_def)

text \<open>
  The instance the claim names: \<open>tsample=1e-3\<close>, \<open>freq=500\<close>, \<open>pulse_dur=2e-3\<close>, no
  interphase gap, no delay. The period has 2 samples, the pulse 4.
\<close>

theorem PulseTrain_negative_gap_raises_witness:
  "(0::rat) < 1 / 1000
   \<and> \<not> np_isclose 500 0 \<and> \<not> np_isclose 20 0
   \<and> 0 \<le> np_round (0 / (1 / 1000))
   \<and> BiphasicPulse ''cathodicfirst'' (2 / 1000) (1 / 1000) 0 =
       Inr \<lparr>tsample = 1 / 1000, data = [- 1, - 1, 1, 1]\<rparr>
   \<and> np_round (1 / 500 / (1 / 1000)) -
       (np_round (0 / (1 / 1000)) + int (length (map ((*) 20) [- 1, - 1, 1, 1 :: rat]))) = - 2
   \<and> PulseTrain (1 / 1000) 500 20 (1 / 2) 0 (2 / 1000) 0 ''cathodicfirst'' ''pulsefirst'' =
       Inl (ValueError ''Pulse and delay must fit within 1/freq interval.'')"
proof -
  have bp: "BiphasicPulse ''cathodicfirst'' (2 / 1000) (1 / 1000) 0 =
      Inr \<lparr>tsample = 1 / 1000, data = [- 1, - 1, 1, 1]\<rparr>"
    by (simp add: BiphasicPulse_eq Let_def py_round_def eval_nat_numeral)
  show ?thesis
    using bp PulseTrain_negative_gap_raises
      [of "1 / 1000" 500 20 0 "''cathodicfirst''" "2 / 1000" 0
          "\<lparr>tsample = 1 / 1000, data = [- 1, - 1, 1, 1]\<rparr>" "1 / 2" "''pulsefirst''"]
    by (simp add: np_isclose_def)
qed

text \<open>
  A train that was assembled for a negative target length is empty: a negative
  \<open>round(dur/tsample)\<close> needs a negative \<open>dur\<close>, so either the loop runs no round
  (\<open>freq > 0\<close>) or the envelope has no sample (\<open>freq < 0\<close>).
\<close>

lemma negative_target_empty_train:
  assumes ts: "0 < ts" and S: "np_round (dur / ts) < 0" and f0: "freq \<noteq> 0"
    and D: "0 \<le> D" and G: "0 \<le> np_round (1 / freq / ts) - (D + int P)"
  shows "nat (np_ceil (dur * freq)) * (nat D + P + nat (np_round (1 / freq / ts) - (D + int P))) = 0"
proof (cases "0 < freq")
  case True
  have "dur / ts < 0" using S by (rule np_round_neg_imp)
  then have "dur < 0" using ts by (simp add: divide_less_0_iff)
  then have "dur * freq \<le> 0" using True by (simp add: mult_le_0_iff)
  then have "np_ceil (dur * freq) \<le> 0" by (simp add: np_ceil_def ceiling_le_zero)
  then show ?thesis by simp
next
  case False
  then have "freq < 0" using f0 by simp
  then have "1 / freq \<le> 0" by (simp add: divide_nonneg_neg)
  then have "1 / freq / ts \<le> 0" using ts by (rule divide_nonpos_pos)
  then have "np_round (1 / freq / ts) \<le> 0" by (rule np_round_nonpos)
  then have "nat D + P + nat (np_round (1 / freq / ts) - (D + int P)) = 0"
    using D G by simp
  then show ?thesis by simp
qed

lemma np_isclose_zero_self: "np_isclose 0 0"
  by (simp add: np_isclose_def)

text \<open>
  Claim C1, amended. For every call of \<open>PulseTrain.__init__\<close> with \<open>tsample > 0\<close> that
  does not raise, whatever \<open>freq\<close>, \<open>amp\<close>, \<open>delay\<close>, \<open>pulse_dur\<close>,
  \<open>interphase_dur\<close>, \<open>pulsetype\<close> and \<open>pulseorder\<close> are, in the degenerate case as in
  the cases where the assembled buffer is too long or too short, the returned sequence
  has exactly \<open>max(0, round(dur/tsample))\<close> samples: \<open>round(dur/tsample)\<close> of them
  whenever that number is not negative, and none when it is.
\<close>

theorem PulseTrain_length:
  assumes "0 < ts"
    and "PulseTrain ts freq amp dur delay pulse_dur interphase_dur pulsetype pulseorder = Inr out"
  shows "int (length (data out)) = max 0 (np_round (dur / ts))"
proof -
  let ?S = "np_round (dur / ts)"
  from PulseTrain_InrD [OF assms(2)] show ?thesis
  proof (elim conjE disjE exE)
    assume "np_isclose freq 0" and "0 \<le> ?S" and "data out = replicate (nat ?S) 0"
    then show ?thesis by simp
  next
    assume "np_isclose amp 0" and "0 \<le> ?S" and "data out = replicate (nat ?S) 0"
    then show ?thesis by simp
  next
    fix bp pt
    assume far: "\<not> (np_isclose freq 0 \<or> np_isclose amp 0)"
      and D: "0 \<le> np_round (delay / ts)"
      and G: "0 \<le> np_round (1 / freq / ts) - (np_round (delay / ts) + int (length (data bp)))"
      and loop: "pulse_train_loop (nat (np_ceil (dur * freq))) pulseorder
             (replicate (nat (np_round (delay / ts))) 0)
             (map ((*) amp) (data bp))
             (replicate (nat (np_round (1 / freq / ts) -
                (np_round (delay / ts) + int (length (data bp))))) 0) [] = Inr pt"
      and out: "data out = slice_to
             (if int (length pt) < ?S then pt @ replicate (nat (?S - int (length pt))) 0 else pt)
             ?S"
    have len: "length pt = nat (np_ceil (dur * freq)) *
        (nat (np_round (delay / ts)) + length (data bp) +
         nat (np_round (1 / freq / ts) - (np_round (delay / ts) + int (length (data bp)))))"
      using pulse_train_loop_length [OF loop] by simp
    show ?thesis
    proof (cases "0 \<le> ?S")
      case True
      then show ?thesis using out by (simp add: slice_to_def)
    next
      case False
      then have neg: "?S < 0" by simp
      have "freq \<noteq> 0" using far np_isclose_zero_self by auto
      then have "length pt = 0"
        using negative_target_empty_train [OF assms(1) neg _ D G] len by simp
      then show ?thesis using out False by (simp add: slice_to_def)
    qed
  qed
qed

text \<open>
  The amended statement at a train that comes out too short: three envelopes of 3 samples
  for a target of 10, filled up with one zero.
\<close>

theorem PulseTrain_length_witness:
  "(0::rat) < 1 / 100
   \<and> PulseTrain (1 / 100) 30 20 (1 / 10) 0 (1 / 100) 0 ''cathodicfirst'' ''pulsefirst'' =
       Inr \<lparr>tsample = 1 / 100, data = [- 20, 20, 0, - 20, 20, 0, - 20, 20, 0, 0]\<rparr>
   \<and> int (length [- 20, 20, 0, - 20, 20, 0, - 20, 20, 0, 0 :: rat]) =
       max 0 (np_round ((1 / 10) / (1 / 100)))"
proof -
  have env: "np_round (10 / 3) = 3" by code_simp
  have run: "PulseTrain (1 / 100) 30 20 (1 / 10) 0 (1 / 100) 0 ''cathodicfirst'' ''pulsefirst'' =
       Inr \<lparr>tsample = 1 / 100, data = [- 20, 20, 0, - 20, 20, 0, - 20, 20, 0, 0]\<rparr>"
    by (simp add: PulseTrain_def BiphasicPulse_eq Let_def np_isclose_def np_zeros_def
        np_ceil_def py_round_def env pulse_train_loop_pulsefirst slice_to_def eval_nat_numeral)
  show ?thesis
    using run PulseTrain_length [OF _ run] by simp
qed

text \<open>
  A negative duration is not rejected: the loop runs no round, the slice of the empty
  train is empty, and \<open>round(dur/tsample)\<close> is \<open>-100\<close>.
\<close>

theorem PulseTrain_negative_dur_empty:
  "PulseTrain (1 / 1000) 20 20 (- 1 / 10) 0 (2 / 1000) 0 ''cathodicfirst'' ''pulsefirst'' =
     Inr \<lparr>tsample = 1 / 1000, data = []\<rparr>
   \<and> np_round ((- 1 / 10) / (1 / 1000)) = - 100"
  by (simp add: PulseTrain_def BiphasicPulse_eq Let_def np_isclose_def np_zeros_def
      np_ceil_def py_round_def slice_to_def eval_nat_numeral)

text \<open>
  Claim C8. The call \<open>PulseTrain(tsample=1e-4, freq=20, amp=20, dur=0.1,
  pulse_dur=4.5e-4, interphase_dur=4.5e-4)\<close>, with the other parameters at their
  defaults, returns exactly 1000 samples: two envelopes of 500 samples, each an
  amplitude-20 biphasic pulse (cathodic phase, gap, anodic phase) followed by zeros only.
\<close>

theorem PulseTrain_scenario_two_envelopes:
  "PulseTrain (1 / 10000) 20 20 (1 / 10) 0 (45 / 100000) (45 / 100000)
       ''cathodicfirst'' ''pulsefirst'' =
     Inr \<lparr>tsample = 1 / 10000,
          data = ([- 20, - 20, - 20, - 20, 0, 0, 0, 0, 20, 20, 20, 20] @ replicate 488 0) @
                 ([- 20, - 20, - 20, - 20, 0, 0, 0, 0, 20, 20, 20, 20] @ replicate 488 0)\<rparr>
   \<and> length (([- 20, - 20, - 20, - 20, 0, 0, 0, 0, 20, 20, 20, 20] @ replicate 488 (0::rat)) @
             ([- 20, - 20, - 20, - 20, 0, 0, 0, 0, 20, 20, 20, 20] @ replicate 488 0)) = 1000
   \<and> length (filter (\<lambda>x. x \<noteq> 0)
        (([- 20, - 20, - 20, - 20, 0, 0, 0, 0, 20, 20, 20, 20] @ replicate 488 (0::rat)) @
         ([- 20, - 20, - 20, - 20, 0, 0, 0, 0, 20, 20, 20, 20] @ replicate 488 0))) = 16"
proof -
  have half: "np_round (9 / 2) = 4" by code_simp
  have four: "replicate 4 x = [x, x, x, x]" for x :: rat
    by (simp add: eval_nat_numeral)
  have two: "concat (replicate 2 xs) = xs @ xs" for xs :: "rat list"
    by (simp add: eval_nat_numeral)
  have bp: "BiphasicPulse ''cathodicfirst'' (9 / 20000) (1 / 10000) (9 / 20000) =
      Inr \<lparr>tsample = 1 / 10000, data = [- 1, - 1, - 1, - 1, 0, 0, 0, 0, 1, 1, 1, 1]\<rparr>"
    by (simp add: BiphasicPulse_eq Let_def py_round_def half four)
  have run: "PulseTrain (1 / 10000) 20 20 (1 / 10) 0 (45 / 100000) (45 / 100000)
       ''cathodicfirst'' ''pulsefirst'' =
     Inr \<lparr>tsample = 1 / 10000,
          data = ([- 20, - 20, - 20, - 20, 0, 0, 0, 0, 20, 20, 20, 20] @ replicate 488 0) @
                 ([- 20, - 20, - 20, - 20, 0, 0, 0, 0, 20, 20, 20, 20] @ replicate 488 0)\<rparr>"
    by (simp add: PulseTrain_def bp Let_def np_isclose_def np_zeros_def np_ceil_def
        pulse_train_loop_pulsefirst two slice_to_def)
  show ?thesis using run by simp
qed

text \<open>
  Claim C10. The final cut to \<open>stim_size\<close> can fall inside a pulse. With
  \<open>tsample=1e-3\<close>, \<open>freq=60\<close>, \<open>amp=20\<close>, \<open>dur=0.05\<close>, \<open>pulse_dur=2e-3\<close>, no
  interphase gap and \<open>pulseorder='gapfirst'\<close> the call does not raise; the envelope has
  \<open>round(16.67) = 17\<close> samples, three envelopes make 51 samples for a target of 50, and
  the cut removes the last anodic sample: the returned samples sum to \<open>-20\<close>, although
  the biphasic pulse the train is built from sums to \<open>0\<close>.
\<close>

theorem PulseTrain_cut_inside_pulse:
  "PulseTrain (1 / 1000) 60 20 (1 / 20) 0 (2 / 1000) 0 ''cathodicfirst'' ''gapfirst'' =
     Inr \<lparr>tsample = 1 / 1000,
          data = (replicate 13 0 @ [- 20, - 20, 20, 20]) @
                 (replicate 13 0 @ [- 20, - 20, 20, 20]) @
                 (replicate 13 0 @ [- 20, - 20, 20])\<rparr>
   \<and> sum_list ((replicate 13 0 @ [- 20, - 20, 20, 20]) @
                (replicate 13 0 @ [- 20, - 20, 20, 20]) @
                (replicate 13 (0::rat) @ [- 20, - 20, 20])) = - 20
   \<and> BiphasicPulse ''cathodicfirst'' (2 / 1000) (1 / 1000) 0 =
       Inr \<lparr>tsample = 1 / 1000, data = [- 1, - 1, 1, 1]\<rparr>
   \<and> sum_list [- 1, - 1, 1, 1 :: rat] = 0"
proof -
  have env: "np_round (50 / 3) = 17" by code_simp
  have three: "concat (replicate 3 xs) = xs @ xs @ xs" for xs :: "rat list"
    by (simp add: eval_nat_numeral)
  have bp: "BiphasicPulse ''cathodicfirst'' (1 / 500) (1 / 1000) 0 =
      Inr \<lparr>tsample = 1 / 1000, data = [- 1, - 1, 1, 1]\<rparr>"
    by (simp add: BiphasicPulse_eq Let_def py_round_def eval_nat_numeral)
  have run: "PulseTrain (1 / 1000) 60 20 (1 / 20) 0 (2 / 1000) 0 ''cathodicfirst'' ''gapfirst'' =
     Inr \<lparr>tsample = 1 / 1000,
          data = (replicate 13 0 @ [- 20, - 20, 20, 20]) @
                 (replicate 13 0 @ [- 20, - 20, 20, 20]) @
                 (replicate 13 0 @ [- 20, - 20, 20])\<rparr>"
    by (simp add: PulseTrain_def bp env Let_def np_isclose_def np_zeros_def np_ceil_def
        pulse_train_loop_gapfirst three slice_to_def)
  show ?thesis using run bp by (simp add: sum_list_replicate)
qed

subsection \<open>The image mapper on a uniform image\<close>









subsection \<open>parse_pulse_trains\<close>

text \<open>
  The single-waveform case in closed form: the only guard is \<open>num_electrodes > 1\<close>.
\<close>

lemma parse_pulse_trains_Single:
  "parse_pulse_trains (Single r) implant h =
     (if 1 < num_electrodes implant
      then Inl (ValueError ''More than 1 electrode given, use a list of pulse trains'')
      else Inr ([length h], h @ [h ! r]))"
  by (simp add: parse_pulse_trains_def deepcopy_def)

text \<open>
  Claim C5 asks that a single waveform be accepted only for an array of exactly one
  electrode, and rejected for every other count, 0 included. The source's comment says
  the same (``only allowed if the implant has only one electrode''), but its guard is
  \<open>num_electrodes > 1\<close>: for an array without electrodes the call returns a list of one
  copied waveform, one more than there are electrodes.
\<close>

theorem parse_pulse_trains_single_without_electrodes:
  "num_electrodes [] = 0
   \<and> parse_pulse_trains (Single 0) [] [\<lparr>tsample = 1 / 1000, data = [1, - 1]\<rparr>] =
       Inr ([1], [\<lparr>tsample = 1 / 1000, data = [1, - 1]\<rparr>,
                  \<lparr>tsample = 1 / 1000, data = [1, - 1]\<rparr>])"
  by (simp add: parse_pulse_trains_Single num_electrodes_def)

text \<open>
  Claim C4 asks that, in the dictionary case, every electrode that is not named get a zero
  waveform of its own. The source builds one zero waveform and repeats the reference to it
  (\<open>[pt_zero] * implant.num_electrodes\<close>), while every named electrode gets a
  \<open>copy.deepcopy\<close>. For the electrodes \<open>A\<close>, \<open>B\<close>, \<open>C\<close> and the stimulus
  \<open>{'A': pt}\<close> the entries of \<open>B\<close> and \<open>C\<close> are the same object, at address 1: the
  write \<open>pt[1].data[0] = 7\<close> through the entry of \<open>B\<close> shows in the entry of \<open>C\<close>.
\<close>

theorem parse_pulse_trains_dict_shares_zero_fill:
  "parse_pulse_trains (Dict [(''A'', 0)])
      [\<lparr>name = ''A'', receptive_field = (\<lambda>i. 1)\<rparr>,
       \<lparr>name = ''B'', receptive_field = (\<lambda>i. 1)\<rparr>,
       \<lparr>name = ''C'', receptive_field = (\<lambda>i. 1)\<rparr>]
      [\<lparr>tsample = 1 / 1000, data = [1, - 1]\<rparr>] =
     Inr ([2, 1, 1],
          [\<lparr>tsample = 1 / 1000, data = [1, - 1]\<rparr>,
           \<lparr>tsample = 1 / 1000, data = [0, 0]\<rparr>,
           \<lparr>tsample = 1 / 1000, data = [1, - 1]\<rparr>])
   \<and> [2, 1, 1 :: nat] ! 1 = [2, 1, 1] ! 2
   \<and> data (write_sample
              [\<lparr>tsample = 1 / 1000, data = [1, - 1]\<rparr>,
               \<lparr>tsample = 1 / 1000, data = [0, 0]\<rparr>,
               \<lparr>tsample = 1 / 1000, data = [1, - 1]\<rparr>]
              ([2, 1, 1] ! 1) 0 7
            ! ([2, 1, 1] ! 2)) = [7, 0]"
  by (simp add: parse_pulse_trains_def num_electrodes_def get_index_def deepcopy_def
      write_sample_def eval_nat_numeral)

end
